theory Spec2Isabelle
  imports Complex_Main
begin

section \<open>A Naive Bayes spam filter: the notebook as HOL functions\<close>

text \<open>
  The notebook \<^verbatim>\<open>naive_bayes_spam_filter.ipynb\<close> trains a multinomial Naive Bayes
  classifier in a sequence of cells that bind global variables, and then defines
  \<^verbatim>\<open>classify(message)\<close>, which reads four of them. Here each cell is a function, the
  training cells are composed into \<open>train\<close>, and the globals that \<^verbatim>\<open>classify\<close> reads
  are the fields of the record \<open>model\<close>.
\<close>

subsection \<open>Python strings\<close>

text \<open>
  A Python \<^verbatim>\<open>str\<close> is a sequence of Unicode code points; a code point is a natural
  number here. \<open>pystr\<close> turns a HOL literal into the code points of its characters.
\<close>

type_synonym pystr = "nat list"

definition pystr :: "string \<Rightarrow> pystr" where
  "pystr s = map of_char s"

text \<open>
  \<^verbatim>\<open>re.sub("\W", ...)\<close>, \<^verbatim>\<open>str.lower\<close> and \<^verbatim>\<open>str.split\<close> read Python's Unicode
  character database, which is not part of the repository. For the code points below 256
  the database is written out (the four \<open>latin1_\<close> definitions: the alphanumeric
  characters of \<^verbatim>\<open>str.isalnum\<close>, the whitespace of \<^verbatim>\<open>str.isspace\<close>, the characters that
  \<^verbatim>\<open>str.lower\<close> changes, each into the code point 32 above it). For the other code points
  it is a parameter \<open>u\<close> of every function that reads it: \<open>isalnum u c\<close> and
  \<open>isspace u c\<close> are the two character classes, and \<open>tolower u pre c post\<close> is what
  \<^verbatim>\<open>str.lower\<close> puts in the place of \<open>c\<close> when \<open>c\<close> stands between \<open>pre\<close> and
  \<open>post\<close> (one character can become several, and the capital sigma depends on its
  neighbours).
\<close>

record unicode_db =
  isalnum :: "nat \<Rightarrow> bool"
  isspace :: "nat \<Rightarrow> bool"
  tolower :: "pystr \<Rightarrow> nat \<Rightarrow> pystr \<Rightarrow> pystr"

definition latin1_alnum :: "nat \<Rightarrow> bool" where
  "latin1_alnum c \<longleftrightarrow>
     (48 \<le> c \<and> c \<le> 57) \<or> (65 \<le> c \<and> c \<le> 90) \<or> (97 \<le> c \<and> c \<le> 122) \<or>
     c = 170 \<or> c = 178 \<or> c = 179 \<or> c = 181 \<or> c = 185 \<or> c = 186 \<or>
     (188 \<le> c \<and> c \<le> 190) \<or> (192 \<le> c \<and> c \<le> 214) \<or> (216 \<le> c \<and> c \<le> 246) \<or>
     (248 \<le> c \<and> c \<le> 255)"

definition latin1_space :: "nat \<Rightarrow> bool" where
  "latin1_space c \<longleftrightarrow> (9 \<le> c \<and> c \<le> 13) \<or> (28 \<le> c \<and> c \<le> 32) \<or> c = 133 \<or> c = 160"

definition latin1_upper :: "nat \<Rightarrow> bool" where
  "latin1_upper c \<longleftrightarrow> (65 \<le> c \<and> c \<le> 90) \<or> (192 \<le> c \<and> c \<le> 214) \<or> (216 \<le> c \<and> c \<le> 222)"

definition latin1_lower :: "nat \<Rightarrow> nat" where
  "latin1_lower c = (if latin1_upper c then c + 32 else c)"

text \<open>The class \<^verbatim>\<open>\w\<close> of a \<^verbatim>\<open>str\<close> pattern: alphanumeric, or the underscore (95).\<close>

definition is_word :: "unicode_db \<Rightarrow> nat \<Rightarrow> bool" where
  "is_word u c = (if c < 256 then latin1_alnum c \<or> c = 95 else isalnum u c)"

definition is_space :: "unicode_db \<Rightarrow> nat \<Rightarrow> bool" where
  "is_space u c = (if c < 256 then latin1_space c else isspace u c)"

text \<open>\<^verbatim>\<open>re.sub("\W", " ", message)\<close>: every character outside \<^verbatim>\<open>\w\<close> becomes a space (32).\<close>

definition re_sub_W :: "unicode_db \<Rightarrow> pystr \<Rightarrow> pystr" where
  "re_sub_W u message = map (\<lambda>c. if is_word u c then c else 32) message"

text \<open>\<^verbatim>\<open>str.lower()\<close>, character by character from the left.\<close>

fun lower_from :: "unicode_db \<Rightarrow> pystr \<Rightarrow> pystr \<Rightarrow> pystr" where
  "lower_from u pre [] = []"
| "lower_from u pre (c # post) =
     (if c < 256 then [latin1_lower c] else tolower u pre c post)
       @ lower_from u (pre @ [c]) post"

definition lower :: "unicode_db \<Rightarrow> pystr \<Rightarrow> pystr" where
  "lower u s = lower_from u [] s"

text \<open>
  \<^verbatim>\<open>str.split()\<close> without a separator: skip whitespace, take the characters up to the
  next whitespace as one word, and repeat; no word is empty.
\<close>

function split :: "unicode_db \<Rightarrow> pystr \<Rightarrow> pystr list" where
  "split u s =
     (case dropWhile (is_space u) s of
        [] \<Rightarrow> []
      | c # cs \<Rightarrow> (c # takeWhile (\<lambda>x. \<not> is_space u x) cs)
                   # split u (dropWhile (\<lambda>x. \<not> is_space u x) cs))"
  by pat_completeness auto
termination
proof (relation "measure (\<lambda>(u, s). length s)")
  show "wf (measure (\<lambda>(u, s). length s))"
    by simp
next
  fix u :: unicode_db and s :: pystr and c cs
  assume rest: "dropWhile (is_space u) s = c # cs"
  have "length (dropWhile (\<lambda>x. \<not> is_space u x) cs) \<le> length cs"
    by (rule length_dropWhile_le)
  moreover have "length (c # cs) \<le> length s"
    using length_dropWhile_le [of "is_space u" s] rest by simp
  ultimately show "((u, dropWhile (\<lambda>x. \<not> is_space u x) cs), (u, s)) \<in> measure (\<lambda>(u, s). length s)"
    by simp
qed

declare split.simps [simp del]

text \<open>
  The first line of \<^verbatim>\<open>classify\<close>:
  \<^verbatim>\<open>message = re.sub("\W", " ", message).lower().split()\<close>.
\<close>

definition tokenize :: "unicode_db \<Rightarrow> pystr \<Rightarrow> pystr list" where
  "tokenize u message = split u (lower u (re_sub_W u message))"

subsection \<open>Numbers\<close>

text \<open>
  The priors are Python floats and the likelihoods are numpy floats. A finite float is
  modelled by the rational number it stands for: rounding, overflow and underflow are left
  out. A division of numpy numbers by zero does not raise: it gives an infinity, or NaN for
  \<open>0 / 0\<close>; these values are kept, with the IEEE rules for their products and
  comparisons.
\<close>

datatype number = Fin rat | PInf | NInf | NaN

definition np_div :: "rat \<Rightarrow> rat \<Rightarrow> number" where
  "np_div n d =
     (if d \<noteq> 0 then Fin (n / d) else if 0 < n then PInf else if n < 0 then NInf else NaN)"

fun sign_of :: "number \<Rightarrow> rat" where
  "sign_of (Fin a) = sgn a"
| "sign_of PInf = 1"
| "sign_of NInf = - 1"
| "sign_of NaN = 0"

fun np_mul :: "number \<Rightarrow> number \<Rightarrow> number" where
  "np_mul NaN y = NaN"
| "np_mul x NaN = NaN"
| "np_mul (Fin a) (Fin b) = Fin (a * b)"
| "np_mul x y =
     (let s = sign_of x * sign_of y in if 0 < s then PInf else if s < 0 then NInf else NaN)"

fun np_gt :: "number \<Rightarrow> number \<Rightarrow> bool" where
  "np_gt NaN y = False"
| "np_gt x NaN = False"
| "np_gt (Fin a) (Fin b) = (b < a)"
| "np_gt PInf y = (y \<noteq> PInf)"
| "np_gt x NInf = (x \<noteq> NInf)"
| "np_gt x y = False"

fun np_add :: "number \<Rightarrow> number \<Rightarrow> number" where
  "np_add NaN y = NaN"
| "np_add x NaN = NaN"
| "np_add (Fin a) (Fin b) = Fin (a + b)"
| "np_add PInf NInf = NaN"
| "np_add NInf PInf = NaN"
| "np_add (Fin a) y = y"
| "np_add x y = x"

datatype error = KeyError | IndexError | ZeroDivisionError

text \<open>\<^verbatim>\<open>a / b\<close> on Python integers raises when \<open>b\<close> is zero.\<close>

definition py_div :: "nat \<Rightarrow> nat \<Rightarrow> error + rat" where
  "py_div a b = (if b = 0 then Inl ZeroDivisionError else Inr (of_nat a / of_nat b))"

subsection \<open>Training\<close>

text \<open>
  The training set \<^verbatim>\<open>train\<close> is a data frame with the columns \<^verbatim>\<open>Label\<close> and
  \<^verbatim>\<open>SMS\<close>: a list of rows (label, text). The labels are strings; the notebook
  compares them with \<^verbatim>\<open>"ham"\<close> and \<^verbatim>\<open>"spam"\<close>.
\<close>

definition ham :: pystr where
  "ham = pystr ''ham''"

definition spam :: pystr where
  "spam = pystr ''spam''"

text \<open>
  The pandas string methods of the data clean cell work on a whole column, one after the
  other. \<^verbatim>\<open>str.replace('\W', ' ')\<close> takes its pattern as a regular expression (the
  default of the pandas versions before 2.0, with which the notebook was run: its printed
  columns have the punctuation removed).
\<close>

definition str_replace_W :: "unicode_db \<Rightarrow> pystr list \<Rightarrow> pystr list" where
  "str_replace_W u col = map (re_sub_W u) col"

definition str_lower :: "unicode_db \<Rightarrow> pystr list \<Rightarrow> pystr list" where
  "str_lower u col = map (lower u) col"

definition str_split :: "unicode_db \<Rightarrow> pystr list \<Rightarrow> pystr list list" where
  "str_split u col = map (split u) col"

definition data_clean :: "unicode_db \<Rightarrow> (pystr \<times> pystr) list \<Rightarrow> (pystr \<times> pystr list) list" where
  "data_clean u train =
     (let sms1 = str_replace_W u (map snd train);
          sms2 = str_split u (str_lower u sms1)
      in zip (map fst train) sms2)"

text \<open>
  The vocabulary: every word of every row is appended to a list, and the list is replaced
  by \<^verbatim>\<open>list(set(vocabulary))\<close>. Python does not fix the order of that list; here it is
  the order of \<open>remdups\<close>. The tables built from it are keyed by word.
\<close>

definition append_words :: "pystr list list \<Rightarrow> pystr list" where
  "append_words sms = fold (\<lambda>row vocabulary. fold (\<lambda>word vocabulary. vocabulary @ [word]) row vocabulary) sms []"

definition build_vocabulary :: "pystr list list \<Rightarrow> pystr list" where
  "build_vocabulary sms = remdups (append_words sms)"

text \<open>
  \<^verbatim>\<open>word_counts_per_sms\<close>: for every word of the vocabulary a list with one counter
  per message, all zero at first;
  \<^verbatim>\<open>word_counts_per_sms[word][index] += 1\<close> for every word of every message.
\<close>

type_synonym word_counts = "pystr \<rightharpoonup> nat list"

definition init_word_counts :: "pystr list \<Rightarrow> nat \<Rightarrow> word_counts" where
  "init_word_counts vocabulary n = map_of (map (\<lambda>unique_word. (unique_word, replicate n 0)) vocabulary)"

fun count_sms :: "nat \<Rightarrow> pystr list \<Rightarrow> word_counts \<Rightarrow> error + word_counts" where
  "count_sms index [] wc = Inr wc"
| "count_sms index (word # sms) wc =
     (case wc word of
        None \<Rightarrow> Inl KeyError
      | Some l \<Rightarrow>
          if index < length l
          then count_sms index sms (wc(word \<mapsto> l[index := l ! index + 1]))
          else Inl IndexError)"

fun count_all :: "nat \<Rightarrow> pystr list list \<Rightarrow> word_counts \<Rightarrow> error + word_counts" where
  "count_all index [] wc = Inr wc"
| "count_all index (sms # rest) wc =
     (case count_sms index sms wc of
        Inl e \<Rightarrow> Inl e
      | Inr wc' \<Rightarrow> count_all (index + 1) rest wc')"

text \<open>
  \<^verbatim>\<open>training_df\<close> is \<^verbatim>\<open>train\<close> with one more column per word of the vocabulary,
  kept apart from the columns \<^verbatim>\<open>Label\<close> and \<^verbatim>\<open>SMS\<close> in the field \<open>counts\<close>
  (Python's \<^verbatim>\<open>str.lower\<close> leaves no capital \<^verbatim>\<open>L\<close> or \<^verbatim>\<open>S\<close>, so no word has the name
  of one of these two columns).
  \<open>with_label\<close> selects the rows with a given label, as in
  \<^verbatim>\<open>training_df[training_df["Label"] == "ham"]\<close>.
\<close>

record dataframe =
  Label :: "pystr list"
  SMS :: "pystr list list"
  counts :: word_counts

definition rows_with :: "pystr \<Rightarrow> pystr list \<Rightarrow> 'a list \<Rightarrow> 'a list" where
  "rows_with l labels col = map snd (filter (\<lambda>row. fst row = l) (zip labels col))"

definition with_label :: "dataframe \<Rightarrow> pystr \<Rightarrow> dataframe" where
  "with_label df l =
     \<lparr>Label = rows_with l (Label df) (Label df),
      SMS = rows_with l (Label df) (SMS df),
      counts = (\<lambda>word. map_option (rows_with l (Label df)) (counts df word))\<rparr>"

text \<open>\<^verbatim>\<open>df[word].sum()\<close>: the sum of a word's column.\<close>

definition column_sum :: "dataframe \<Rightarrow> pystr \<Rightarrow> error + nat" where
  "column_sum df word = (case counts df word of None \<Rightarrow> Inl KeyError | Some col \<Rightarrow> Inr (sum_list col))"

text \<open>
  The constants cell. \<open>alpha\<close> is bound to 1 in the notebook; it is a parameter here, and
  \<open>alpha_notebook\<close> is the notebook's value.
\<close>

definition alpha_notebook :: rat where
  "alpha_notebook = 1"

record constants =
  c_p_ham :: rat
  c_p_spam :: rat
  n_vocab_total :: nat
  n_vocab_given_spam :: nat
  n_vocab_given_ham :: nat

definition calculate_constants :: "dataframe \<Rightarrow> dataframe \<Rightarrow> dataframe \<Rightarrow> pystr list \<Rightarrow> error + constants" where
  "calculate_constants training_df ham_df spam_df vocabulary =
     (case py_div (length (Label ham_df)) (length (Label training_df)) of
        Inl e \<Rightarrow> Inl e
      | Inr ph \<Rightarrow>
     (case py_div (length (Label spam_df)) (length (Label training_df)) of
        Inl e \<Rightarrow> Inl e
      | Inr ps \<Rightarrow>
          Inr \<lparr>c_p_ham = ph, c_p_spam = ps,
               n_vocab_total = length vocabulary,
               n_vocab_given_spam = sum_list (map length (SMS spam_df)),
               n_vocab_given_ham = sum_list (map length (SMS ham_df))\<rparr>))"

text \<open>
  The parameter tables: \<^verbatim>\<open>{unique_word: 0 for unique_word in vocabulary}\<close>, and the
  loop of the calculate parameters cell over the vocabulary.
\<close>

type_synonym parameters = "pystr \<rightharpoonup> number"

definition init_parameters :: "pystr list \<Rightarrow> parameters" where
  "init_parameters vocabulary = map_of (map (\<lambda>unique_word. (unique_word, Fin 0)) vocabulary)"

fun calculate_parameters ::
  "rat \<Rightarrow> constants \<Rightarrow> dataframe \<Rightarrow> dataframe \<Rightarrow> pystr list \<Rightarrow> parameters \<times> parameters
     \<Rightarrow> error + parameters \<times> parameters" where
  "calculate_parameters alpha k ham_df spam_df [] (parameters_ham, parameters_spam) =
     Inr (parameters_ham, parameters_spam)"
| "calculate_parameters alpha k ham_df spam_df (word # rest) (parameters_ham, parameters_spam) =
     (case column_sum ham_df word of
        Inl e \<Rightarrow> Inl e
      | Inr n_word_given_ham \<Rightarrow>
     (case column_sum spam_df word of
        Inl e \<Rightarrow> Inl e
      | Inr n_word_given_spam \<Rightarrow>
          (let p_word_given_ham =
                 np_div (of_nat n_word_given_ham + alpha)
                        (of_nat (n_vocab_given_ham k) + alpha * of_nat (n_vocab_total k));
               p_word_given_spam =
                 np_div (of_nat n_word_given_spam + alpha)
                        (of_nat (n_vocab_given_spam k) + alpha * of_nat (n_vocab_total k))
           in calculate_parameters alpha k ham_df spam_df rest
                (parameters_ham(word \<mapsto> p_word_given_ham),
                 parameters_spam(word \<mapsto> p_word_given_spam)))))"

text \<open>The globals that the training cells leave behind and that the claims are about.\<close>

record model =
  vocabulary :: "pystr list"
  p_ham :: rat
  p_spam :: rat
  parameters_ham :: parameters
  parameters_spam :: parameters

definition train :: "unicode_db \<Rightarrow> rat \<Rightarrow> (pystr \<times> pystr) list \<Rightarrow> error + model" where
  "train u alpha df =
     (let train = data_clean u df;
          vocab = build_vocabulary (map snd train)
      in case count_all 0 (map snd train) (init_word_counts vocab (length train)) of
           Inl e \<Rightarrow> Inl e
         | Inr word_counts_per_sms \<Rightarrow>
             (let training_df = \<lparr>Label = map fst train, SMS = map snd train,
                                 counts = word_counts_per_sms\<rparr>;
                  ham_df = with_label training_df ham;
                  spam_df = with_label training_df spam
              in case calculate_constants training_df ham_df spam_df vocab of
                   Inl e \<Rightarrow> Inl e
                 | Inr k \<Rightarrow>
                     (case calculate_parameters alpha k ham_df spam_df vocab
                             (init_parameters vocab, init_parameters vocab) of
                        Inl e \<Rightarrow> Inl e
                      | Inr (ph, ps) \<Rightarrow>
                          Inr \<lparr>vocabulary = vocab, p_ham = c_p_ham k, p_spam = c_p_spam k,
                               parameters_ham = ph, parameters_spam = ps\<rparr>)))"

subsection \<open>Classification\<close>

text \<open>
  The loop of \<^verbatim>\<open>classify\<close> over the words of the message, on the pair of running
  scores, and the function itself.
\<close>

fun adjust :: "model \<Rightarrow> pystr list \<Rightarrow> number \<times> number \<Rightarrow> number \<times> number" where
  "adjust m [] (p_ham_given_message, p_spam_given_message) =
     (p_ham_given_message, p_spam_given_message)"
| "adjust m (word # message) (p_ham_given_message, p_spam_given_message) =
     adjust m message
       (case parameters_ham m word of
          Some p \<Rightarrow> np_mul p_ham_given_message p
        | None \<Rightarrow> p_ham_given_message,
        case parameters_spam m word of
          Some p \<Rightarrow> np_mul p_spam_given_message p
        | None \<Rightarrow> p_spam_given_message)"

definition scores :: "unicode_db \<Rightarrow> model \<Rightarrow> pystr \<Rightarrow> number \<times> number" where
  "scores u m message = adjust m (tokenize u message) (Fin (p_ham m), Fin (p_spam m))"

definition classify :: "unicode_db \<Rightarrow> model \<Rightarrow> pystr \<Rightarrow> pystr" where
  "classify u m message =
     (case scores u m message of
        (p_ham_given_message, p_spam_given_message) \<Rightarrow>
          if np_gt p_spam_given_message p_ham_given_message then spam else ham)"

subsection \<open>The quantities of the specification\<close>

text \<open>
  The specification describes the trained model by counts over the training examples.
  These definitions follow its words, not the notebook's cells:
  \<open>token_count\<close> is the number of occurrences of a token across all training examples
  with a label, \<open>total_tokens\<close> the sum of the token-sequence lengths of the examples with
  a label, \<open>distinct_tokens\<close> the set of the distinct tokens over all training examples,
  and \<open>likelihood\<close> the smoothing formula over them, with the division of the notebook
  (\<open>np_div n d\<close> is \<open>Fin (n / d)\<close> unless \<open>d\<close> is zero).
\<close>

definition examples_labeled :: "pystr \<Rightarrow> (pystr \<times> pystr) list \<Rightarrow> (pystr \<times> pystr) list" where
  "examples_labeled l df = filter (\<lambda>example. fst example = l) df"

definition token_count :: "unicode_db \<Rightarrow> (pystr \<times> pystr) list \<Rightarrow> pystr \<Rightarrow> pystr \<Rightarrow> nat" where
  "token_count u df l t =
     sum_list (map (\<lambda>example. count_list (tokenize u (snd example)) t) (examples_labeled l df))"

definition total_tokens :: "unicode_db \<Rightarrow> (pystr \<times> pystr) list \<Rightarrow> pystr \<Rightarrow> nat" where
  "total_tokens u df l =
     sum_list (map (\<lambda>example. length (tokenize u (snd example))) (examples_labeled l df))"

definition distinct_tokens :: "unicode_db \<Rightarrow> (pystr \<times> pystr) list \<Rightarrow> pystr set" where
  "distinct_tokens u df = (\<Union>example \<in> set df. set (tokenize u (snd example)))"

definition likelihood :: "unicode_db \<Rightarrow> rat \<Rightarrow> (pystr \<times> pystr) list \<Rightarrow> pystr \<Rightarrow> pystr \<Rightarrow> number" where
  "likelihood u alpha df l t =
     np_div (of_nat (token_count u df l t) + alpha)
            (of_nat (total_tokens u df l) + alpha * of_nat (card (distinct_tokens u df)))"

text \<open>
  The model of the specification: the priors are the shares of the examples with each
  label, and each table gives the likelihood of every token of the vocabulary.
\<close>

definition specified_model :: "unicode_db \<Rightarrow> rat \<Rightarrow> (pystr \<times> pystr) list \<Rightarrow> model" where
  "specified_model u alpha df =
     \<lparr>vocabulary = build_vocabulary (map (\<lambda>row. tokenize u (snd row)) df),
      p_ham = of_nat (length (examples_labeled ham df)) / of_nat (length df),
      p_spam = of_nat (length (examples_labeled spam df)) / of_nat (length df),
      parameters_ham =
        (\<lambda>t. if t \<in> distinct_tokens u df then Some (likelihood u alpha df ham t) else None),
      parameters_spam =
        (\<lambda>t. if t \<in> distinct_tokens u df then Some (likelihood u alpha df spam t) else None)\<rparr>"

text \<open>
  The running score of one label as the specification words it: it starts at the prior,
  and every token of the message that is in the vocabulary multiplies it by the label's
  likelihood for that token.
\<close>

definition running_score :: "pystr list \<Rightarrow> rat \<Rightarrow> parameters \<Rightarrow> pystr list \<Rightarrow> number" where
  "running_score vocab prior table tokens =
     fold (\<lambda>t score. if t \<in> set vocab then np_mul score (the (table t)) else score)
       tokens (Fin prior)"

text \<open>The sum of a table's values over a list of tokens.\<close>

definition table_sum :: "parameters \<Rightarrow> pystr list \<Rightarrow> number" where
  "table_sum table tokens = fold (\<lambda>t total. np_add total (the (table t))) tokens (Fin 0)"

text \<open>
  Three entries of Python's Unicode database beyond code point 255: U+0130 (304, the
  capital I with a dot above) is alphanumeric, and \<^verbatim>\<open>str.lower\<close> turns it into the two
  characters U+0069 U+0307 (105, 775); U+0307 (the combining dot above) is neither
  alphanumeric nor whitespace. The other entries of \<open>dotted_I_db\<close> are not used.
\<close>

definition dotted_I_db :: unicode_db where
  "dotted_I_db =
     \<lparr>isalnum = (\<lambda>c. c = 304),
      isspace = (\<lambda>c. False),
      tolower = (\<lambda>pre c post. if c = 304 then [105, 775] else [c])\<rparr>"

text \<open>
  The counters of \<^verbatim>\<open>word_counts_per_sms\<close> when the messages \<open>seen\<close> have been counted
  and \<open>k\<close> messages are still to come (the invariant of the counting loop).
\<close>

definition counted :: "pystr set \<Rightarrow> pystr list list \<Rightarrow> nat \<Rightarrow> word_counts" where
  "counted V seen k =
     (\<lambda>w. if w \<in> V then Some (map (\<lambda>sms. count_list sms w) seen @ replicate k 0) else None)"

text \<open>
  Two small training sets and the models that training builds from them with the
  notebook's \<open>alpha\<close>; the theorems below are run on them.
\<close>

definition example_df :: "(pystr \<times> pystr) list" where
  "example_df =
     [(ham, pystr ''Call me''), (spam, pystr ''WIN a prize, win!''), (ham, pystr ''call a cab'')]"

definition example_model :: model where
  "example_model = projr (train dotted_I_db alpha_notebook example_df)"



section \<open>Proofs\<close>

subsection \<open>The tokenizer\<close>





subsection \<open>The training cells\<close>

lemma data_clean_rows: "data_clean u df = map (\<lambda>row. (fst row, tokenize u (snd row))) df"
  by (induction df)
    (simp_all add: data_clean_def str_replace_W_def str_lower_def str_split_def tokenize_def)

lemma fold_append_word: "fold (\<lambda>word vocabulary. vocabulary @ [word]) row acc = acc @ row"
  by (induction row arbitrary: acc) auto

lemma fold_append_rows:
  "fold (\<lambda>row vocabulary. fold (\<lambda>word vocabulary. vocabulary @ [word]) row vocabulary) sms acc
     = acc @ concat sms"
  by (induction sms arbitrary: acc) (auto simp: fold_append_word)

lemma append_words_concat: "append_words sms = concat sms"
  by (simp add: append_words_def fold_append_rows)

lemma set_build_vocabulary: "set (build_vocabulary sms) = (\<Union>row\<in>set sms. set row)"
  by (simp add: build_vocabulary_def append_words_concat)

lemma distinct_build_vocabulary: "distinct (build_vocabulary sms)"
  by (simp add: build_vocabulary_def)

lemma init_word_counts_apply:
  "init_word_counts vocab n w = (if w \<in> set vocab then Some (replicate n 0) else None)"
  by (induction vocab) (auto simp: init_word_counts_def)

lemma init_parameters_apply:
  "init_parameters vocab w = (if w \<in> set vocab then Some (Fin 0) else None)"
  by (induction vocab) (auto simp: init_parameters_def)

lemma count_sms_result:
  "set sms \<subseteq> dom wc \<Longrightarrow> \<forall>w l. wc w = Some l \<longrightarrow> index < length l \<Longrightarrow>
   count_sms index sms wc
     = Inr (\<lambda>w. map_option (\<lambda>l. l[index := l ! index + count_list sms w]) (wc w))"
proof (induction sms arbitrary: wc)
  case Nil
  have "(\<lambda>w. map_option (\<lambda>l. l[index := l ! index]) (wc w)) = wc"
    by (rule ext) (simp add: option.map_ident)
  then show ?case by simp
next
  case (Cons word sms)
  from Cons.prems obtain l where l: "wc word = Some l" and len: "index < length l"
    by auto
  let ?wc = "wc(word \<mapsto> l[index := l ! index + 1])"
  have "set sms \<subseteq> dom ?wc" using Cons.prems(1) by auto
  moreover have "\<forall>w l. ?wc w = Some l \<longrightarrow> index < length l"
    using Cons.prems(2) len by auto
  ultimately have "count_sms index sms ?wc
     = Inr (\<lambda>w. map_option (\<lambda>l. l[index := l ! index + count_list sms w]) (?wc w))"
    by (rule Cons.IH)
  moreover have "(\<lambda>w. map_option (\<lambda>l. l[index := l ! index + count_list sms w]) (?wc w))
     = (\<lambda>w. map_option (\<lambda>l. l[index := l ! index + count_list (word # sms) w]) (wc w))"
    using l len by (auto intro!: ext)
  ultimately show ?case using l len by simp
qed

lemma count_all_result:
  "\<forall>sms\<in>set rest. set sms \<subseteq> V \<Longrightarrow>
   count_all (length seen) rest (counted V seen (length rest)) = Inr (counted V (seen @ rest) 0)"
proof (induction rest arbitrary: seen)
  case Nil
  then show ?case by simp
next
  case (Cons sms rest)
  have "count_sms (length seen) sms (counted V seen (length (sms # rest)))
     = Inr (\<lambda>w. map_option (\<lambda>l. l[length seen := l ! length seen + count_list sms w])
                   (counted V seen (length (sms # rest)) w))"
    using Cons.prems by (intro count_sms_result) (auto simp: counted_def dom_def)
  also have "(\<lambda>w. map_option (\<lambda>l. l[length seen := l ! length seen + count_list sms w])
                   (counted V seen (length (sms # rest)) w))
     = counted V (seen @ [sms]) (length rest)"
    by (rule ext) (simp add: counted_def list_update_append nth_append)
  finally have step: "count_sms (length seen) sms (counted V seen (length (sms # rest)))
     = Inr (counted V (seen @ [sms]) (length rest))" .
  have "count_all (length (seen @ [sms])) rest (counted V (seen @ [sms]) (length rest))
     = Inr (counted V ((seen @ [sms]) @ rest) 0)"
    using Cons.prems by (intro Cons.IH) simp
  with step show ?case by simp
qed

lemma rows_with_map:
  "rows_with l (map fst rows) (map g rows) = map g (filter (\<lambda>row. fst row = l) rows)"
  by (induction rows) (auto simp: rows_with_def)

lemma tokens_labeled:
  "filter (\<lambda>row. fst row = l) (map (\<lambda>row. (fst row, tokenize u (snd row))) df)
     = map (\<lambda>row. (fst row, tokenize u (snd row))) (examples_labeled l df)"
  by (induction df) (auto simp: examples_labeled_def)

lemma calculate_parameters_result:
  "\<forall>w\<in>set ws. counts ham_df w \<noteq> None \<and> counts spam_df w \<noteq> None \<Longrightarrow>
   calculate_parameters alpha k ham_df spam_df ws (ph, ps)
     = Inr (\<lambda>w. if w \<in> set ws
                 then Some (np_div (of_nat (sum_list (the (counts ham_df w))) + alpha)
                              (of_nat (n_vocab_given_ham k) + alpha * of_nat (n_vocab_total k)))
                 else ph w,
            \<lambda>w. if w \<in> set ws
                 then Some (np_div (of_nat (sum_list (the (counts spam_df w))) + alpha)
                              (of_nat (n_vocab_given_spam k) + alpha * of_nat (n_vocab_total k)))
                 else ps w)"
proof (induction ws arbitrary: ph ps)
  case Nil
  then show ?case by simp
next
  case (Cons word rest)
  from Cons.prems obtain hcol scol
    where h: "counts ham_df word = Some hcol" and s: "counts spam_df word = Some scol"
    by auto
  have rest: "\<forall>w\<in>set rest. counts ham_df w \<noteq> None \<and> counts spam_df w \<noteq> None"
    using Cons.prems by simp
  show ?case
    by (simp add: column_sum_def h s Cons.IH [OF rest] Let_def) (auto intro!: ext simp: h s)
qed


lemma with_label_counted:
  "with_label \<lparr>Label = map fst toks, SMS = map snd toks, counts = counted V (map snd toks) 0\<rparr> l
     = \<lparr>Label = map fst (filter (\<lambda>row. fst row = l) toks),
        SMS = map snd (filter (\<lambda>row. fst row = l) toks),
        counts = counted V (map snd (filter (\<lambda>row. fst row = l) toks)) 0\<rparr>"
proof -
  have "rows_with l (map fst toks) (map (\<lambda>sms. count_list sms w) (map snd toks))
      = map (\<lambda>sms. count_list sms w) (map snd (filter (\<lambda>row. fst row = l) toks))" for w
    using rows_with_map [of l toks "\<lambda>row. count_list (snd row) w"] by (simp add: comp_def)
  then have "(\<lambda>word. map_option (rows_with l (map fst toks)) (counted V (map snd toks) 0 word))
      = counted V (map snd (filter (\<lambda>row. fst row = l) toks)) 0"
    by (intro ext) (simp add: counted_def)
  then show ?thesis
    by (simp add: with_label_def rows_with_map)
qed

lemma token_count_tokens:
  "toks = map (\<lambda>row. (fst row, tokenize u (snd row))) df \<Longrightarrow>
   sum_list (map (\<lambda>sms. count_list sms w) (map snd (filter (\<lambda>row. fst row = l) toks)))
     = token_count u df l w"
  by (simp add: tokens_labeled token_count_def comp_def)

lemma total_tokens_tokens:
  "toks = map (\<lambda>row. (fst row, tokenize u (snd row))) df \<Longrightarrow>
   sum_list (map length (map snd (filter (\<lambda>row. fst row = l) toks))) = total_tokens u df l"
  by (simp add: tokens_labeled total_tokens_def comp_def)

lemma vocabulary_tokens:
  "toks = map (\<lambda>row. (fst row, tokenize u (snd row))) df \<Longrightarrow>
   set (build_vocabulary (map snd toks)) = distinct_tokens u df"
  by (simp add: set_build_vocabulary distinct_tokens_def)

lemma train_empty: "train u alpha [] = Inl ZeroDivisionError"
  by (simp add: train_def data_clean_rows build_vocabulary_def append_words_concat
      calculate_constants_def py_div_def with_label_def rows_with_def)

lemma train_result:
  assumes "df \<noteq> []"
  shows "train u alpha df = Inr (specified_model u alpha df)"
proof -
  define toks where "toks = map (\<lambda>row. (fst row, tokenize u (snd row))) df"
  define V where "V = build_vocabulary (map snd toks)"
  have clean: "data_clean u df = toks"
    by (simp add: toks_def data_clean_rows)
  have setV: "set V = distinct_tokens u df"
    unfolding V_def by (rule vocabulary_tokens [OF toks_def])
  have lenV: "length V = card (distinct_tokens u df)"
    using distinct_card [of V] setV by (simp add: V_def distinct_build_vocabulary)
  have "init_word_counts V (length toks) = counted (set V) [] (length (map snd toks))"
    by (intro ext) (simp add: init_word_counts_apply counted_def)
  moreover have "\<forall>sms\<in>set (map snd toks). set sms \<subseteq> set V"
    by (auto simp: V_def set_build_vocabulary)
  ultimately have cnt: "count_all 0 (map snd toks) (init_word_counts V (length toks))
      = Inr (counted (set V) (map snd toks) 0)"
    using count_all_result [of "map snd toks" "set V" "[]"] by simp
  define hrows where "hrows = filter (\<lambda>row. fst row = ham) toks"
  define srows where "srows = filter (\<lambda>row. fst row = spam) toks"
  define ham_df where "ham_df = \<lparr>Label = map fst hrows, SMS = map snd hrows,
      counts = counted (set V) (map snd hrows) 0\<rparr>"
  define spam_df where "spam_df = \<lparr>Label = map fst srows, SMS = map snd srows,
      counts = counted (set V) (map snd srows) 0\<rparr>"
  have hlen: "length hrows = length (examples_labeled ham df)"
    and slen: "length srows = length (examples_labeled spam df)"
    by (simp_all add: hrows_def srows_def toks_def tokens_labeled)
  define k where "k = \<lparr>c_p_ham = of_nat (length (examples_labeled ham df)) / of_nat (length df),
      c_p_spam = of_nat (length (examples_labeled spam df)) / of_nat (length df),
      n_vocab_total = length V,
      n_vocab_given_spam = total_tokens u df spam,
      n_vocab_given_ham = total_tokens u df ham\<rparr>"
  have htot: "sum_list (map (length \<circ> snd) hrows) = total_tokens u df ham"
    and stot: "sum_list (map (length \<circ> snd) srows) = total_tokens u df spam"
    using total_tokens_tokens [OF toks_def, of ham] total_tokens_tokens [OF toks_def, of spam]
    by (simp_all add: hrows_def srows_def)
  have kres: "calculate_constants
      \<lparr>Label = map fst toks, SMS = map snd toks, counts = counted (set V) (map snd toks) 0\<rparr>
      ham_df spam_df V = Inr k"
    using assms
    by (simp add: calculate_constants_def py_div_def ham_df_def spam_df_def k_def hlen slen
        htot stot toks_def)
  have cols: "\<forall>w\<in>set V. counts ham_df w \<noteq> None \<and> counts spam_df w \<noteq> None"
    by (simp add: ham_df_def spam_df_def counted_def)
  have hsum: "sum_list (the (counts ham_df w)) = token_count u df ham w" if "w \<in> set V" for w
    using that by (simp add: ham_df_def counted_def hrows_def token_count_tokens [OF toks_def] del: map_map)
  have ssum: "sum_list (the (counts spam_df w)) = token_count u df spam w" if "w \<in> set V" for w
    using that by (simp add: spam_df_def counted_def srows_def token_count_tokens [OF toks_def] del: map_map)
  have params: "calculate_parameters alpha k ham_df spam_df V (init_parameters V, init_parameters V)
      = Inr (parameters_ham (specified_model u alpha df), parameters_spam (specified_model u alpha df))"
    unfolding calculate_parameters_result [OF cols]
    by (auto intro!: ext simp: specified_model_def likelihood_def init_parameters_apply setV hsum ssum k_def lenV)
  have voc: "vocabulary (specified_model u alpha df) = V"
    by (simp add: specified_model_def likelihood_def V_def toks_def comp_def)
  show ?thesis
    unfolding train_def clean Let_def
    by (simp add: cnt V_def [symmetric] with_label_counted hrows_def [symmetric]
        srows_def [symmetric] ham_df_def [symmetric] spam_df_def [symmetric] kres params)
      (simp add: specified_model_def likelihood_def k_def voc [unfolded specified_model_def likelihood_def, simplified])
qed

subsection \<open>The claims about the tokenizer\<close>











subsection \<open>What training returns\<close>

lemma train_Inr:
  assumes "train u alpha df = Inr m"
  shows "df \<noteq> []" and "m = specified_model u alpha df"
proof -
  show ne: "df \<noteq> []"
    using assms train_empty [of u alpha] by auto
  show "m = specified_model u alpha df"
    using assms train_result [OF ne, of u alpha] by simp
qed

lemma vocabulary_specified: "set (vocabulary (specified_model u alpha df)) = distinct_tokens u df"
  by (simp add: specified_model_def set_build_vocabulary distinct_tokens_def)

lemma trained_vocabulary:
  assumes "train u alpha df = Inr m"
  shows "set (vocabulary m) = distinct_tokens u df" and "distinct (vocabulary m)"
  using train_Inr(2) [OF assms]
  by (simp_all add: vocabulary_specified) (simp add: specified_model_def distinct_build_vocabulary)

lemma trained_keys:
  assumes "train u alpha df = Inr m"
  shows "dom (parameters_ham m) = set (vocabulary m)"
    and "dom (parameters_spam m) = set (vocabulary m)"
proof -
  from train_Inr [OF assms] have m: "m = specified_model u alpha df" by simp
  note v = trained_vocabulary(1) [OF assms]
  show "dom (parameters_ham m) = set (vocabulary m)"
    unfolding v by (auto simp: m specified_model_def split: if_splits)
  show "dom (parameters_spam m) = set (vocabulary m)"
    unfolding v by (auto simp: m specified_model_def split: if_splits)
qed

lemma ham_neq_spam: "ham \<noteq> spam"
  by (simp add: ham_def spam_def pystr_def)

lemma finite_distinct_tokens: "finite (distinct_tokens u df)"
  by (simp add: distinct_tokens_def)

lemma example_trained: "train dotted_I_db alpha_notebook example_df = Inr example_model"
proof -
  have "\<not> isl (train dotted_I_db alpha_notebook example_df)"
    by code_simp
  then show ?thesis by (simp add: example_model_def)
qed

subsection \<open>The claims about training\<close>

text \<open>
  Claim C2. For every token \<open>t\<close> of the vocabulary of a trained model and for both labels,
  the table entry is the smoothed likelihood
  \<open>(token_count + alpha) / (total_tokens + alpha * |Vocabulary|)\<close>, where the counts are
  those of the specification and the vocabulary is the set of the distinct tokens of all
  training examples. The division is the notebook's; for a positive \<open>alpha\<close> the
  denominator is positive and the entry is the exact quotient.
\<close>

theorem likelihood_table:
  assumes "train u alpha df = Inr m" and "t \<in> set (vocabulary m)"
  shows "set (vocabulary m) = distinct_tokens u df
       \<and> parameters_ham m t = Some (likelihood u alpha df ham t)
       \<and> parameters_spam m t = Some (likelihood u alpha df spam t)
       \<and> (0 < alpha \<longrightarrow>
            likelihood u alpha df l t
              = Fin ((of_nat (token_count u df l t) + alpha)
                     / (of_nat (total_tokens u df l) + alpha * of_nat (card (distinct_tokens u df)))))"
proof -
  from train_Inr [OF assms(1)] have m: "m = specified_model u alpha df" by simp
  note v = trained_vocabulary(1) [OF assms(1)]
  have "0 < card (distinct_tokens u df)"
    using assms(2) v finite_distinct_tokens [of u df] by (auto simp: card_gt_0_iff)
  then have "0 < of_nat (total_tokens u df l) + alpha * of_nat (card (distinct_tokens u df))"
    if "0 < alpha"
    using that by (simp add: add_nonneg_pos)
  then have "likelihood u alpha df l t
      = Fin ((of_nat (token_count u df l t) + alpha)
             / (of_nat (total_tokens u df l) + alpha * of_nat (card (distinct_tokens u df))))"
    if "0 < alpha"
    using that by (simp add: likelihood_def np_div_def)
  with assms(2) v show ?thesis
    by (simp add: m specified_model_def)
qed

theorem likelihood_table_witness:
  "train dotted_I_db alpha_notebook example_df = Inr example_model
   \<and> pystr ''win'' \<in> set (vocabulary example_model)
   \<and> parameters_ham example_model (pystr ''win'') = Some (Fin (1 / 11))
   \<and> parameters_spam example_model (pystr ''win'') = Some (Fin (3 / 10))
   \<and> likelihood dotted_I_db alpha_notebook example_df ham (pystr ''win'') = Fin (1 / 11)
   \<and> likelihood dotted_I_db alpha_notebook example_df spam (pystr ''win'') = Fin (3 / 10)"
proof -
  have v: "pystr ''win'' \<in> set (vocabulary example_model)"
    by code_simp
  have h: "parameters_ham example_model (pystr ''win'') = Some (Fin (1 / 11))"
    by code_simp
  have s: "parameters_spam example_model (pystr ''win'') = Some (Fin (3 / 10))"
    by code_simp
  from likelihood_table [OF example_trained v] example_trained v h s show ?thesis
    by simp
qed

text \<open>
  Claim C3, as amended. Training fails exactly when the collection of training examples
  is empty, whatever \<open>alpha\<close> is: the division by the number of examples raises
  \<^verbatim>\<open>ZeroDivisionError\<close>, and a failed training returns no model. No cell looks at the
  sign of \<open>alpha\<close>.
\<close>

theorem train_fails_iff_empty:
  "isl (train u alpha df) = (df = []) \<and> train u alpha [] = Inl ZeroDivisionError"
proof (cases "df = []")
  case True
  then show ?thesis by (simp add: train_empty)
next
  case False
  then show ?thesis by (simp add: train_result train_empty)
qed

text \<open>
  Claim C3 as stated fails for a negative \<open>alpha\<close>: with \<open>alpha = -1\<close> and one
  training example, \<^verbatim>\<open>("ham", "a a")\<close>, training does not fail.
\<close>

theorem train_negative_alpha:
  "\<not> isl (train dotted_I_db (- 1) [(ham, pystr ''a a'')])"
  by code_simp

lemma length_two_labels:
  "\<forall>example\<in>set df. fst example = spam \<or> fst example = ham \<Longrightarrow>
   length (examples_labeled spam df) + length (examples_labeled ham df) = length df"
  using ham_neq_spam by (induction df) (auto simp: examples_labeled_def)

text \<open>
  Claim C5. For every trained model whose training examples all have the label
  \<^verbatim>\<open>"spam"\<close> or \<^verbatim>\<open>"ham"\<close>, each prior is the number of examples with that label divided
  by the number of all examples, and the two priors sum to 1.
\<close>

theorem priors_sum_to_one:
  assumes "train u alpha df = Inr m"
    and "\<forall>example\<in>set df. fst example = spam \<or> fst example = ham"
  shows "p_spam m = of_nat (length (examples_labeled spam df)) / of_nat (length df)
       \<and> p_ham m = of_nat (length (examples_labeled ham df)) / of_nat (length df)
       \<and> p_spam m + p_ham m = 1"
proof -
  from train_Inr [OF assms(1)] have ne: "df \<noteq> []" and m: "m = specified_model u alpha df" .
  have "(of_nat (length (examples_labeled spam df)) + of_nat (length (examples_labeled ham df)) :: rat)
      = of_nat (length df)"
    using length_two_labels [OF assms(2)] by (metis of_nat_add)
  then have "(of_nat (length (examples_labeled spam df)) / of_nat (length df)
      + of_nat (length (examples_labeled ham df)) / of_nat (length df) :: rat) = 1"
    using ne by (simp add: add_divide_distrib [symmetric])
  then show ?thesis by (simp add: m specified_model_def)
qed

theorem priors_sum_to_one_witness:
  "train dotted_I_db alpha_notebook example_df = Inr example_model
   \<and> list_all (\<lambda>example. fst example = spam \<or> fst example = ham) example_df
   \<and> p_spam example_model = 1 / 3
   \<and> p_ham example_model = 2 / 3
   \<and> p_spam example_model + p_ham example_model = 1"
proof -
  have l: "\<forall>example\<in>set example_df. fst example = spam \<or> fst example = ham"
    by (simp add: example_df_def)
  have s: "p_spam example_model = 1 / 3"
    by code_simp
  have h: "p_ham example_model = 2 / 3"
    by code_simp
  from priors_sum_to_one [OF example_trained l] example_trained l s h show ?thesis
    by (simp add: list_all_iff)
qed

lemma table_sum_fin:
  "\<forall>t\<in>set ts. table t = Some (Fin (f t)) \<Longrightarrow>
   fold (\<lambda>t total. np_add total (the (table t))) ts (Fin a) = Fin (a + sum_list (map f ts))"
  by (induction ts arbitrary: a) (auto simp: add.assoc)

lemma sum_token_count:
  "(\<Sum>t\<in>distinct_tokens u df. token_count u df l t) = total_tokens u df l"
proof -
  have sub: "set (tokenize u (snd example)) \<subseteq> distinct_tokens u df"
    if "example \<in> set (examples_labeled l df)" for example
    using that by (auto simp: distinct_tokens_def examples_labeled_def)
  have "(\<Sum>t\<in>S. sum_list (map (\<lambda>example. count_list (tokenize u (snd example)) t) exs))
      = sum_list (map (\<lambda>example. \<Sum>t\<in>S. count_list (tokenize u (snd example)) t) exs)"
    for S :: "pystr set" and exs :: "(pystr \<times> pystr) list"
    by (induction exs) (simp_all add: sum.distrib)
  then have "(\<Sum>t\<in>distinct_tokens u df. token_count u df l t)
      = sum_list (map (\<lambda>example. \<Sum>t\<in>distinct_tokens u df. count_list (tokenize u (snd example)) t)
          (examples_labeled l df))"
    by (simp add: token_count_def)
  also have "\<dots> = sum_list (map (\<lambda>example. length (tokenize u (snd example))) (examples_labeled l df))"
    by (rule arg_cong [where f = sum_list], rule map_cong [OF refl])
      (simp add: sum_count_set [OF sub finite_distinct_tokens])
  finally show ?thesis by (simp add: total_tokens_def)
qed

lemma likelihood_sum:
  assumes "0 < (alpha :: rat)" and "distinct_tokens u df \<noteq> {}"
  shows "(\<Sum>t\<in>distinct_tokens u df.
            (of_nat (token_count u df l t) + alpha)
              / (of_nat (total_tokens u df l) + alpha * of_nat (card (distinct_tokens u df)))) = 1"
proof -
  let ?V = "distinct_tokens u df"
  let ?d = "(of_nat (total_tokens u df l) + alpha * of_nat (card ?V)) :: rat"
  have "0 < card ?V"
    using assms(2) finite_distinct_tokens [of u df] by (simp add: card_gt_0_iff)
  then have d: "0 < ?d"
    using assms(1) by (simp add: add_nonneg_pos)
  have "(\<Sum>t\<in>?V. (of_nat (token_count u df l t) + alpha) / ?d)
      = (\<Sum>t\<in>?V. of_nat (token_count u df l t) + alpha) / ?d"
    by (simp add: sum_divide_distrib)
  also have "(\<Sum>t\<in>?V. of_nat (token_count u df l t) + alpha)
      = of_nat (\<Sum>t\<in>?V. token_count u df l t) + of_nat (card ?V) * alpha"
    by (simp add: sum.distrib)
  also have "\<dots> = ?d"
    by (simp add: sum_token_count mult.commute)
  finally show ?thesis using d by simp
qed

text \<open>
  Claim C4, as amended. For every model trained with a positive \<open>alpha\<close> whose
  vocabulary is not empty, and for both labels, the likelihoods of all tokens of the
  vocabulary sum to exactly 1.
\<close>

theorem likelihoods_sum_to_one:
  assumes "train u alpha df = Inr m" and "0 < alpha" and "vocabulary m \<noteq> []"
  shows "table_sum (parameters_ham m) (vocabulary m) = Fin 1
       \<and> table_sum (parameters_spam m) (vocabulary m) = Fin 1"
proof -
  from train_Inr [OF assms(1)] have m: "m = specified_model u alpha df" by simp
  note v = trained_vocabulary(1) [OF assms(1)] and dist = trained_vocabulary(2) [OF assms(1)]
  have ne: "distinct_tokens u df \<noteq> {}"
    using assms(3) v by auto
  have d: "of_nat (total_tokens u df l) + alpha * of_nat (card (distinct_tokens u df)) \<noteq> (0::rat)" for l
  proof -
    have "0 < card (distinct_tokens u df)"
      using ne finite_distinct_tokens [of u df] by (simp add: card_gt_0_iff)
    then have "0 < of_nat (total_tokens u df l) + alpha * of_nat (card (distinct_tokens u df))"
      using assms(2) by (simp add: add_nonneg_pos)
    then show ?thesis by simp
  qed
  have total: "sum_list (map (\<lambda>t. (of_nat (token_count u df l t) + alpha)
        / (of_nat (total_tokens u df l) + alpha * of_nat (card (distinct_tokens u df)))) (vocabulary m)) = 1"
    for l
    using likelihood_sum [OF assms(2) ne, of l]
    by (simp add: sum_list_distinct_conv_sum_set [OF dist] v)
  have hams: "\<forall>t\<in>set (vocabulary m). parameters_ham m t
      = Some (Fin ((of_nat (token_count u df ham t) + alpha)
          / (of_nat (total_tokens u df ham) + alpha * of_nat (card (distinct_tokens u df)))))"
    unfolding v by (simp add: m specified_model_def likelihood_def np_div_def d)
  have spams: "\<forall>t\<in>set (vocabulary m). parameters_spam m t
      = Some (Fin ((of_nat (token_count u df spam t) + alpha)
          / (of_nat (total_tokens u df spam) + alpha * of_nat (card (distinct_tokens u df)))))"
    unfolding v by (simp add: m specified_model_def likelihood_def np_div_def d)
  have "table_sum (parameters_ham m) (vocabulary m) = Fin 1"
    unfolding table_sum_def table_sum_fin [OF hams] by (simp add: total)
  moreover have "table_sum (parameters_spam m) (vocabulary m) = Fin 1"
    unfolding table_sum_def table_sum_fin [OF spams] by (simp add: total)
  ultimately show ?thesis by simp
qed

theorem likelihoods_sum_to_one_witness:
  "train dotted_I_db alpha_notebook example_df = Inr example_model
   \<and> 0 < alpha_notebook
   \<and> vocabulary example_model \<noteq> []
   \<and> map (parameters_spam example_model) (vocabulary example_model)
       = [Some (Fin (1 / 10)), Some (Fin (1 / 5)), Some (Fin (3 / 10)),
          Some (Fin (1 / 10)), Some (Fin (1 / 5)), Some (Fin (1 / 10))]
   \<and> table_sum (parameters_ham example_model) (vocabulary example_model) = Fin 1
   \<and> table_sum (parameters_spam example_model) (vocabulary example_model) = Fin 1"
proof -
  have v: "vocabulary example_model \<noteq> []"
    by code_simp
  have p: "map (parameters_spam example_model) (vocabulary example_model)
       = [Some (Fin (1 / 10)), Some (Fin (1 / 5)), Some (Fin (3 / 10)),
          Some (Fin (1 / 10)), Some (Fin (1 / 5)), Some (Fin (1 / 10))]"
    by code_simp
  have a: "0 < alpha_notebook"
    by (simp add: alpha_notebook_def)
  from likelihoods_sum_to_one [OF example_trained a v] example_trained a v p show ?thesis
    by simp
qed

text \<open>
  Claim C4 as stated fails when no training message has a token: the training set with
  the one message \<^verbatim>\<open>":-)"\<close> gives a model with an empty vocabulary, and the sum over it
  is 0.
\<close>

theorem likelihoods_of_empty_vocabulary:
  "\<not> isl (train dotted_I_db alpha_notebook [(ham, pystr '':-)'')])
   \<and> vocabulary (projr (train dotted_I_db alpha_notebook [(ham, pystr '':-)'')])) = []
   \<and> table_sum (parameters_ham (projr (train dotted_I_db alpha_notebook [(ham, pystr '':-)'')])))
        (vocabulary (projr (train dotted_I_db alpha_notebook [(ham, pystr '':-)'')]))) = Fin 0"
  by code_simp

subsection \<open>The claims about classification\<close>

lemma adjust_fold:
  "dom (parameters_ham m) = set (vocabulary m) \<Longrightarrow> dom (parameters_spam m) = set (vocabulary m) \<Longrightarrow>
   adjust m tokens (h, s)
     = (fold (\<lambda>t score. if t \<in> set (vocabulary m) then np_mul score (the (parameters_ham m t)) else score) tokens h,
        fold (\<lambda>t score. if t \<in> set (vocabulary m) then np_mul score (the (parameters_spam m t)) else score) tokens s)"
proof (induction tokens arbitrary: h s)
  case Nil
  then show ?case by simp
next
  case (Cons word tokens)
  show ?case
  proof (cases "word \<in> set (vocabulary m)")
    case True
    with Cons.prems obtain p q where "parameters_ham m word = Some p" "parameters_spam m word = Some q"
      by blast
    with True Cons.IH [OF Cons.prems] show ?thesis by simp
  next
    case False
    with Cons.prems have "parameters_ham m word = None" "parameters_spam m word = None"
      by blast+
    with False Cons.IH [OF Cons.prems] show ?thesis by simp
  qed
qed

lemma scores_running:
  assumes "train u alpha df = Inr m"
  shows "scores u m message
     = (running_score (vocabulary m) (p_ham m) (parameters_ham m) (tokenize u message),
        running_score (vocabulary m) (p_spam m) (parameters_spam m) (tokenize u message))"
  unfolding scores_def running_score_def
  by (rule adjust_fold) (rule trained_keys [OF assms])+




lemma tokenize_empty: "tokenize u [] = []"
  by (simp add: tokenize_def lower_def re_sub_W_def split.simps [of u "[]"])



lemma running_score_unseen:
  "\<forall>t\<in>set tokens. t \<notin> set vocab \<Longrightarrow> running_score vocab prior table tokens = Fin prior"
proof -
  assume "\<forall>t\<in>set tokens. t \<notin> set vocab"
  then have "fold (\<lambda>t score. if t \<in> set vocab then np_mul score (the (table t)) else score) tokens x = x" for x
    by (induction tokens arbitrary: x) auto
  then show ?thesis by (simp add: running_score_def)
qed

text \<open>
  Claim C7. For every trained model, a message none of whose tokens is in the vocabulary
  leaves both running scores at the priors, and is classified as the empty string is.
\<close>

theorem unseen_tokens_neutral:
  assumes "train u alpha df = Inr m"
    and "\<forall>t\<in>set (tokenize u message). t \<notin> set (vocabulary m)"
  shows "scores u m message = (Fin (p_ham m), Fin (p_spam m))
       \<and> classify u m message = classify u m []"
proof -
  have "scores u m message = (Fin (p_ham m), Fin (p_spam m))"
    by (simp add: scores_running [OF assms(1)] running_score_unseen [OF assms(2)])
  moreover have "scores u m [] = (Fin (p_ham m), Fin (p_spam m))"
    by (simp add: scores_def tokenize_empty)
  ultimately show ?thesis by (simp add: classify_def)
qed

theorem unseen_tokens_neutral_witness:
  "train dotted_I_db alpha_notebook example_df = Inr example_model
   \<and> tokenize dotted_I_db (pystr ''zzqqxx_not_in_vocab'') = [pystr ''zzqqxx_not_in_vocab'']
   \<and> list_all (\<lambda>t. t \<notin> set (vocabulary example_model))
         (tokenize dotted_I_db (pystr ''zzqqxx_not_in_vocab''))
   \<and> classify dotted_I_db example_model (pystr ''zzqqxx_not_in_vocab'') = ham
   \<and> classify dotted_I_db example_model [] = ham"
proof -
  have t: "tokenize dotted_I_db (pystr ''zzqqxx_not_in_vocab'') = [pystr ''zzqqxx_not_in_vocab'']"
    by code_simp
  have n: "pystr ''zzqqxx_not_in_vocab'' \<notin> set (vocabulary example_model)"
    by code_simp
  have u: "\<forall>t\<in>set (tokenize dotted_I_db (pystr ''zzqqxx_not_in_vocab'')). t \<notin> set (vocabulary example_model)"
    using t n by simp
  have c: "classify dotted_I_db example_model [] = ham"
    by code_simp
  from unseen_tokens_neutral [OF example_trained u] example_trained t u c show ?thesis
    by (simp add: list_all_iff)
qed

text \<open>
  Claim C10. The two likelihood tables of a trained model have the same keys, the words
  of the vocabulary. So the two membership tests of the loop in \<^verbatim>\<open>classify\<close> agree: a
  word of the vocabulary multiplies both running scores, any other word leaves both as
  they are. \<^verbatim>\<open>classify\<close> only reads the tables: it returns a label and no model.
\<close>

theorem tables_share_keys:
  assumes "train u alpha df = Inr m"
  shows "dom (parameters_ham m) = set (vocabulary m)
       \<and> dom (parameters_spam m) = set (vocabulary m)
       \<and> (parameters_ham m word = None) = (parameters_spam m word = None)
       \<and> adjust m [word] (h, s)
           = (if word \<in> set (vocabulary m)
              then (np_mul h (the (parameters_ham m word)), np_mul s (the (parameters_spam m word)))
              else (h, s))"
proof -
  note keys = trained_keys [OF assms]
  have same: "(parameters_ham m word = None) = (parameters_spam m word = None)"
    using keys by (metis domIff)
  have "adjust m [word] (h, s)
      = (np_mul h (the (parameters_ham m word)), np_mul s (the (parameters_spam m word)))"
    if "word \<in> set (vocabulary m)"
  proof -
    from that keys obtain p q
      where "parameters_ham m word = Some p" and "parameters_spam m word = Some q"
      by blast
    then show ?thesis by simp
  qed
  moreover have "adjust m [word] (h, s) = (h, s)" if "word \<notin> set (vocabulary m)"
  proof -
    from that keys have "parameters_ham m word = None" and "parameters_spam m word = None"
      by blast+
    then show ?thesis by simp
  qed
  ultimately show ?thesis using keys same by simp
qed

theorem tables_share_keys_witness:
  "train dotted_I_db alpha_notebook example_df = Inr example_model
   \<and> adjust example_model [pystr ''win''] (Fin 1, Fin 1) = (Fin (1 / 11), Fin (3 / 10))
   \<and> adjust example_model [pystr ''zzz''] (Fin 1, Fin 1) = (Fin 1, Fin 1)
   \<and> parameters_ham example_model (pystr ''zzz'') = None
   \<and> parameters_spam example_model (pystr ''zzz'') = None"
proof -
  have w: "adjust example_model [pystr ''win''] (Fin 1, Fin 1) = (Fin (1 / 11), Fin (3 / 10))"
    by code_simp
  have z: "pystr ''zzz'' \<notin> set (vocabulary example_model)"
    by code_simp
  have n: "parameters_ham example_model (pystr ''zzz'') = None"
    by code_simp
  from tables_share_keys [OF example_trained, of "pystr ''zzz''" "Fin 1" "Fin 1"]
    example_trained w z n
  show ?thesis by simp
qed

end
